theory Spec2Isabelle
  imports Complex_Main
begin

unbundle bit_operations_syntax

section \<open>Errors and process exit\<close>

text \<open>
  The generator has two ways of stopping early.  \<open>die_werr\<close> prints an \<open>ERROR:\<close> line and
  calls \<open>sys.exit(2)\<close>.  Every other failure is a Python exception that nothing in the
  script catches: the interpreter prints a traceback and leaves with status 1.
\<close>

datatype exn = ValueError | IndexError | AttributeError | ZeroDivisionError

datatype error = Die string | Uncaught exn

fun exit_status :: "error \<Rightarrow> int" where
  "exit_status (Die msg) = 2"
| "exit_status (Uncaught e) = 1"

definition die_werr :: "string \<Rightarrow> error + 'a" where
  "die_werr message = Inl (Die message)"

definition bind_err :: "error + 'a \<Rightarrow> ('a \<Rightarrow> error + 'b) \<Rightarrow> error + 'b" where
  "bind_err r f = (case r of Inl e \<Rightarrow> Inl e | Inr v \<Rightarrow> f v)"

section \<open>Arithmetic helpers\<close>

text \<open>\<open>is_power2z\<close>: true if zero or a power of two, by the bit trick of the source.\<close>

definition is_power2z :: "int \<Rightarrow> bool" where
  "is_power2z n = ((n AND (n - 1)) = 0)"

text \<open>
  \<open>int(math.ceil(a / b))\<close> for integers \<open>a\<close> and \<open>b \<noteq> 0\<close>.  The source divides in
  floating point; the model takes the exact quotient, which is what the source computes
  as long as the operands are below \<open>2 ^ 53\<close>.  Callers check \<open>b \<noteq> 0\<close> first, where Python
  raises \<open>ZeroDivisionError\<close>.
\<close>

definition ceil_div :: "int \<Rightarrow> int \<Rightarrow> int" where
  "ceil_div a b = - ((- a) div b)"

section \<open>Data structures\<close>

text \<open>
  Class \<open>sram\<close>.  The area is a Python float read from the library file; the model keeps
  it as an exact rational, so products such as \<open>2 * 1.8\<close> carry no rounding.
\<close>

record sram =
  name :: string
  words :: int
  width :: int
  area :: rat
  ports :: int

text \<open>Access patterns: the strings \<open>"modulo"\<close> and \<open>"unknown"\<close> of the source.\<close>

datatype pattern = Modulo | Unknown

record memory_operation =
  rn :: int
  rp :: pattern
  wn :: int
  wp :: pattern

text \<open>The total area of a memory starts at \<open>float('inf')\<close>.\<close>

datatype pyfloat = Finite rat | PosInf

fun float_gt :: "pyfloat \<Rightarrow> rat \<Rightarrow> bool" where
  "float_gt PosInf x = True"
| "float_gt (Finite y) x = (y > x)"

record memory =
  name :: string
  words :: int
  width :: int
  ops :: "memory_operation list"
  read_interfaces :: int
  write_interfaces :: int
  need_dual_port :: bool
  need_parallel_rw :: bool
  duplication_factor :: int
  distribution_factor :: int
  dbanks :: int
  hbanks :: int
  vbanks :: int
  hhbanks :: int
  bank_type :: "sram option"
  area :: pyfloat

text \<open>The class attributes of \<open>memory\<close>: what an instance reads before it assigns.\<close>

definition default_memory :: "string \<Rightarrow> int \<Rightarrow> int \<Rightarrow> memory_operation list \<Rightarrow> memory" where
  "default_memory nm w b os =
     \<lparr> name = nm, words = w, width = b, ops = os,
       read_interfaces = 1, write_interfaces = 1,
       need_dual_port = False, need_parallel_rw = False,
       duplication_factor = 1, distribution_factor = 1,
       dbanks = 1, hbanks = 1, vbanks = 1, hhbanks = 1,
       bank_type = None, area = PosInf \<rparr>"

text \<open>\<open>memory.__init__\<close>.\<close>

definition memory_init :: "string \<Rightarrow> int \<Rightarrow> int \<Rightarrow> memory_operation list \<Rightarrow> error + memory" where
  "memory_init nm w b os =
     (if w \<le> 0 then die_werr (''Memory '' @ nm @ '' has illegal number of words'')
      else if b \<le> 0 then die_werr (''Memory '' @ nm @ '' has illegal bit-width'')
      else if length os = 0 then
        die_werr (''No operation specified for memory '' @ [CHR 0x22] @ nm @ [CHR 0x22])
      else Inr (default_memory nm w b os))"

section \<open>Banking planner\<close>

subsection \<open>\<open>__find_hbanks\<close>\<close>

text \<open>First loop: interfaces and port capabilities.\<close>

fun hbanks_interfaces :: "memory_operation list \<Rightarrow> memory \<Rightarrow> memory" where
  "hbanks_interfaces [] m = m"
| "hbanks_interfaces (x # rest) m =
     (let m1 = m\<lparr>read_interfaces := max (read_interfaces m) (rn x)\<rparr>;
          m2 = m1\<lparr>write_interfaces := max (write_interfaces m1) (wn x)\<rparr>;
          m3 = m2\<lparr>need_parallel_rw := (need_parallel_rw m2 \<or> (rn x > 0 \<and> wn x > 0))\<rparr>;
          m4 = m3\<lparr>need_dual_port :=
                 (need_dual_port m3 \<or> need_parallel_rw m3 \<or>
                  (wn x = 2 \<and> wp x = Unknown) \<or>
                  ((\<not> need_parallel_rw m3) \<and> (rn x > 1 \<or> wn x > 1)))\<rparr>
      in hbanks_interfaces rest m4)"

text \<open>Second loop: duplication.\<close>

definition op_duplication_factor :: "memory_operation \<Rightarrow> int" where
  "op_duplication_factor x =
     (let f0 = 1;
          f1 = (if rp x = Unknown \<and> rn x > 1
                then (if wn x = 0 then ceil_div (rn x) 2 else rn x)
                else f0);
          f2 = (if wp x = Unknown \<and> wn x > 1
                then (if rn x = 0 then ceil_div (wn x) 2 else max f1 (wn x))
                else f1)
      in f2)"

fun hbanks_duplication :: "memory_operation list \<Rightarrow> memory \<Rightarrow> memory" where
  "hbanks_duplication [] m = m"
| "hbanks_duplication (x # rest) m =
     hbanks_duplication rest
       (m\<lparr>duplication_factor := max (duplication_factor m) (op_duplication_factor x)\<rparr>)"

text \<open>Third loop: distribution.  It reads \<open>need_parallel_rw\<close> as the first loop left it.\<close>

definition op_distribution_factor :: "bool \<Rightarrow> memory_operation \<Rightarrow> int" where
  "op_distribution_factor parallel_rw x =
     (let f0 = 1;
          f1 = (if rp x = Modulo \<and> rn x > 1
                then (if wn x \<noteq> 0 \<or> parallel_rw then rn x else drop_bit 1 (rn x))
                else f0);
          f2 = (if wp x = Modulo \<and> wn x > 1
                then (if rn x \<noteq> 0 \<or> parallel_rw then max f1 (wn x) else drop_bit 1 (wn x))
                else f1)
      in f2)"

fun hbanks_distribution :: "memory_operation list \<Rightarrow> memory \<Rightarrow> memory" where
  "hbanks_distribution [] m = m"
| "hbanks_distribution (x # rest) m =
     hbanks_distribution rest
       (m\<lparr>distribution_factor :=
            max (distribution_factor m) (op_distribution_factor (need_parallel_rw m) x)\<rparr>)"

definition find_hbanks :: "memory \<Rightarrow> memory" where
  "find_hbanks m =
     (let m1 = hbanks_interfaces (ops m) m;
          m2 = hbanks_duplication (ops m1) m1;
          m3 = hbanks_distribution (ops m2) m2;
          m4 = m3\<lparr>dbanks := duplication_factor m3\<rparr>
      in m4\<lparr>hbanks := distribution_factor m4\<rparr>)"

subsection \<open>\<open>__find_vbanks\<close>\<close>

text \<open>
  The body of the loop over the library, for one macro.  \<open>words_per_hbank\<close>, \<open>d\<close> and \<open>h\<close>
  are the locals computed before the loop.  A macro that is not skipped divides by its
  width and by its word count; a zero there raises \<open>ZeroDivisionError\<close>.
\<close>

definition vbanks_body :: "sram \<Rightarrow> int \<Rightarrow> int \<Rightarrow> int \<Rightarrow> memory \<Rightarrow> error + memory" where
  "vbanks_body ram words_per_hbank d h m =
     (if need_dual_port m \<and> sram.ports ram < 2 then Inr m
      else if sram.width ram = 0 then Inl (Uncaught ZeroDivisionError)
      else if sram.words ram = 0 then Inl (Uncaught ZeroDivisionError)
      else
        (let hh = ceil_div (width m) (sram.width ram);
             v = ceil_div words_per_hbank (sram.words ram);
             new_area = of_int (d * h * hh * v) * sram.area ram
         in if float_gt (area m) new_area
            then Inr (m\<lparr>vbanks := v, hhbanks := hh, bank_type := Some ram,
                         area := Finite new_area\<rparr>)
            else Inr m))"

fun vbanks_loop :: "sram list \<Rightarrow> int \<Rightarrow> int \<Rightarrow> int \<Rightarrow> memory \<Rightarrow> error + memory" where
  "vbanks_loop [] words_per_hbank d h m = Inr m"
| "vbanks_loop (ram # lib) words_per_hbank d h m =
     bind_err (vbanks_body ram words_per_hbank d h m) (vbanks_loop lib words_per_hbank d h)"

definition find_vbanks :: "sram list \<Rightarrow> memory \<Rightarrow> error + memory" where
  "find_vbanks lib m =
     (if hbanks m = 0 then Inl (Uncaught ZeroDivisionError)
      else vbanks_loop lib (ceil_div (words m) (hbanks m)) (dbanks m) (hbanks m) m)"

subsection \<open>\<open>gen\<close>\<close>

text \<open>
  \<open>gen\<close> plans and then prints the plan.  The printing reads \<open>self.bank_type.name\<close>; when
  no macro was retained \<open>bank_type\<close> is still \<open>None\<close> and the attribute access raises
  \<open>AttributeError\<close>.
\<close>

definition gen :: "sram list \<Rightarrow> memory \<Rightarrow> error + memory" where
  "gen lib m =
     bind_err (find_vbanks lib (find_hbanks m))
       (\<lambda>m'. case bank_type m' of
                None \<Rightarrow> Inl (Uncaught AttributeError)
              | Some ram \<Rightarrow> Inr m')"

section \<open>Strings\<close>

text \<open>
  The library functions the parser relies on, for the ASCII range: \<open>str.split()\<close>,
  \<open>str.split(sep)\<close>, \<open>re.split\<close> on a pattern of the shape \<open>[class]+\<close>, \<open>re.match\<close> of a
  literal, \<open>int()\<close> and list indexing.
\<close>

definition is_space :: "char \<Rightarrow> bool" where
  "is_space c = (c \<in> set [CHR 0x09, CHR 0x0A, CHR 0x0B, CHR 0x0C, CHR 0x0D,
                          CHR 0x1C, CHR 0x1D, CHR 0x1E, CHR 0x1F, CHR 0x20])"

definition is_digit :: "char \<Rightarrow> bool" where
  "is_digit c = (c \<in> set ''0123456789'')"

definition is_lower :: "char \<Rightarrow> bool" where
  "is_lower c = (c \<in> set ''abcdefghijklmnopqrstuvwxyz'')"

definition is_upper :: "char \<Rightarrow> bool" where
  "is_upper c = (c \<in> set ''ABCDEFGHIJKLMNOPQRSTUVWXYZ'')"

definition to_lower :: "char \<Rightarrow> char" where
  "to_lower c = (if is_upper c then char_of (of_char c + (32::nat)) else c)"

text \<open>\<open>xs[i]\<close> for a literal index \<open>i \<ge> 0\<close>.\<close>

definition py_index :: "'a list \<Rightarrow> nat \<Rightarrow> error + 'a" where
  "py_index xs i = (if i < length xs then Inr (xs ! i) else Inl (Uncaught IndexError))"

text \<open>\<open>s.split()\<close>: the maximal runs of non-blank characters.\<close>

fun split_ws :: "string \<Rightarrow> string \<Rightarrow> string list" where
  "split_ws cur [] = (if cur = [] then [] else [rev cur])"
| "split_ws cur (c # cs) =
     (if is_space c then (if cur = [] then split_ws [] cs else rev cur # split_ws [] cs)
      else split_ws (c # cur) cs)"

definition py_split :: "string \<Rightarrow> string list" where
  "py_split s = split_ws [] s"

text \<open>\<open>s.split(sep)\<close> for a separator of one character.\<close>

fun split_sep :: "char \<Rightarrow> string \<Rightarrow> string \<Rightarrow> string list" where
  "split_sep sep cur [] = [rev cur]"
| "split_sep sep cur (c # cs) =
     (if c = sep then rev cur # split_sep sep [] cs else split_sep sep (c # cur) cs)"

definition py_split_on :: "char \<Rightarrow> string \<Rightarrow> string list" where
  "py_split_on sep s = split_sep sep [] s"

text \<open>
  \<open>re.split(pattern, s, maxsplit)\<close> for a pattern \<open>[class]+\<close> and \<open>maxsplit > 0\<close>: the
  pieces between the first \<open>maxsplit\<close> maximal runs of characters of the class.  The flag
  says that the scan is inside a run.
\<close>

fun re_split_run :: "(char \<Rightarrow> bool) \<Rightarrow> nat \<Rightarrow> bool \<Rightarrow> string \<Rightarrow> string \<Rightarrow> string list" where
  "re_split_run cls n inside cur [] = [rev cur]"
| "re_split_run cls n inside cur (c # cs) =
     (if inside \<and> cls c then re_split_run cls n True [] cs
      else if cls c \<and> n > 0 then rev cur # re_split_run cls (n - 1) True [] cs
      else re_split_run cls n False (c # cur) cs)"

definition re_split :: "(char \<Rightarrow> bool) \<Rightarrow> nat \<Rightarrow> string \<Rightarrow> string list" where
  "re_split cls maxsplit s = re_split_run cls maxsplit False [] s"

text \<open>
  \<open>re.match(lit, s, re.M|re.I)\<close> for a literal of lower-case letters: \<open>s\<close> starts with the
  literal, whatever the case.
\<close>

definition re_match_ci :: "string \<Rightarrow> string \<Rightarrow> bool" where
  "re_match_ci lit s = (length lit \<le> length s \<and> map to_lower (take (length lit) s) = lit)"

text \<open>
  \<open>int(s)\<close>: blanks around, an optional sign, then decimal digits, where single underscores
  may stand between digits.  Anything else raises \<open>ValueError\<close>.
\<close>

fun strip_left :: "string \<Rightarrow> string" where
  "strip_left [] = []"
| "strip_left (c # cs) = (if is_space c then strip_left cs else c # cs)"

definition py_strip :: "string \<Rightarrow> string" where
  "py_strip s = rev (strip_left (rev (strip_left s)))"

fun digits_ok :: "bool \<Rightarrow> string \<Rightarrow> bool" where
  "digits_ok after_digit [] = after_digit"
| "digits_ok after_digit (c # cs) =
     (if is_digit c then digits_ok True cs
      else if c = CHR ''_'' \<and> after_digit then digits_ok False cs
      else False)"

fun digits_value :: "int \<Rightarrow> string \<Rightarrow> int" where
  "digits_value acc [] = acc"
| "digits_value acc (c # cs) =
     (if is_digit c then digits_value (10 * acc + (of_char c - 48)) cs
      else digits_value acc cs)"

definition py_int :: "string \<Rightarrow> error + int" where
  "py_int s =
     (let t = py_strip s;
          neg = (t \<noteq> [] \<and> hd t = CHR ''-'');
          body = (if t \<noteq> [] \<and> (hd t = CHR ''-'' \<or> hd t = CHR ''+'') then tl t else t)
      in if digits_ok False body
         then Inr (if neg then - digits_value 0 body else digits_value 0 body)
         else Inl (Uncaught ValueError))"

section \<open>Input parsing\<close>

subsection \<open>\<open>parse_op\<close>\<close>

text \<open>
  The two \<open>re.split\<close> calls pass \<open>re.M|re.I\<close> in the third position, which is
  \<open>maxsplit\<close>: the patterns run with no flag and with up to \<open>8 + 2 = 10\<close> splits.  The
  \<open>re.match\<close> calls take the same value as \<open>flags\<close>.
\<close>

definition re_M :: nat where "re_M = 8"
definition re_I :: nat where "re_I = 2"

definition read_pattern_of :: "string \<Rightarrow> string \<Rightarrow> int \<Rightarrow> error + pattern" where
  "read_pattern_of tok read_pattern_abbrv read_number =
     (if re_match_ci ''ru'' read_pattern_abbrv then Inr Unknown
      else if re_match_ci ''r'' read_pattern_abbrv then
        (if \<not> is_power2z read_number then
           die_werr (''Operation '' @ tok @
             '' implies known access patter (modulo), but the number of accesses is not a power of 2'')
         else Inr Modulo)
      else die_werr (''Parallel read access '' @ tok @ '' not recognized''))"

definition write_pattern_of :: "string \<Rightarrow> string \<Rightarrow> int \<Rightarrow> int \<Rightarrow> error + pattern" where
  "write_pattern_of tok write_pattern_abbrv write_number read_number =
     (if re_match_ci ''wu'' write_pattern_abbrv then
        (if write_number > 2 then
           die_werr (''Too many parallel write accesses with unknown pattern for '' @ tok)
         else if write_number = 2 \<and> read_number \<noteq> 0 then
           die_werr (''2 parallel write accesses with unknown pattern for '' @ tok @
             '' have non-zero parallel read access'')
         else Inr Unknown)
      else if re_match_ci ''w'' write_pattern_abbrv then
        (if \<not> is_power2z write_number then
           die_werr (''Operation '' @ tok @
             '' implies known access patter (modulo), but the number of accesses is not a power of 2'')
         else Inr Modulo)
      else die_werr (''Parallel write access '' @ tok @ '' not recognized''))"

definition parse_op :: "string \<Rightarrow> int \<Rightarrow> error + memory_operation" where
  "parse_op tok mem_words =
     (let item = py_split_on CHR '':'' tok in
      bind_err (py_index item 0) (\<lambda>item0.
      bind_err (py_index (re_split is_lower (re_M + re_I) item0) 0) (\<lambda>wtxt.
      bind_err (py_int wtxt) (\<lambda>write_number.
      bind_err (py_index (re_split is_digit (re_M + re_I) item0) 1) (\<lambda>write_pattern_abbrv.
      bind_err (py_index item 1) (\<lambda>item1.
      bind_err (py_index (re_split is_lower (re_M + re_I) item1) 0) (\<lambda>rtxt.
      bind_err (py_int rtxt) (\<lambda>read_number.
      bind_err (py_index (re_split is_digit (re_M + re_I) item1) 1) (\<lambda>read_pattern_abbrv.
        if read_number > mem_words \<or> write_number > mem_words then
          die_werr (''Too many ports for the specified number of words for '' @ tok)
        else if read_number > 16 \<or> read_number < 0 then
          die_werr (''Too many paralle accesses specified for '' @ tok)
        else
          bind_err (read_pattern_of tok read_pattern_abbrv read_number) (\<lambda>read_pattern.
            if write_number > 16 \<or> write_number < 0 then
              die_werr (''Too many paralle accesses specified for '' @ tok)
            else
              bind_err (write_pattern_of tok write_pattern_abbrv write_number read_number)
                (\<lambda>write_pattern.
                  Inr \<lparr> rn = read_number, rp = read_pattern,
                        wn = write_number, wp = write_pattern \<rparr>)))))))))))"

subsection \<open>\<open>parse_sram\<close> and \<open>read_techfile\<close>\<close>

text \<open>
  \<open>float()\<close> is a parameter of the model: a function from the text of the area field to
  its value, or to the exception it raises.  A macro with an unsupported number of ports
  gives a warning and \<open>None\<close>.
\<close>

definition parse_sram :: "(string \<Rightarrow> error + rat) \<Rightarrow> string \<Rightarrow> error + sram option" where
  "parse_sram py_float s =
     (let item = py_split s in
      bind_err (py_index item 0) (\<lambda>i0. bind_err (py_int i0) (\<lambda>words.
      bind_err (py_index item 1) (\<lambda>i1. bind_err (py_int i1) (\<lambda>width.
      bind_err (py_index item 2) (\<lambda>nm.
      bind_err (py_index item 3) (\<lambda>i3. bind_err (py_float i3) (\<lambda>ar.
      bind_err (py_index item 4) (\<lambda>i4. bind_err (py_int i4) (\<lambda>ports.
        if ports < 1 \<or> ports > 2 then Inr None
        else Inr (Some \<lparr> sram.name = nm, words = words, width = width,
                          area = ar, ports = ports \<rparr>)))))))))))"

text \<open>\<open>re.match(r'#\.*', line, re.M|re.I)\<close>: the line starts with \<open>#\<close>.\<close>

fun is_comment :: "string \<Rightarrow> bool" where
  "is_comment [] = False"
| "is_comment (c # cs) = (c = CHR ''#'')"

text \<open>
  The file is the list of its lines, each with its line terminator.  \<open>line.strip()\<close>
  returns a new string that the source drops, so the line is used as it was read.
\<close>

fun read_techfile :: "(string \<Rightarrow> error + rat) \<Rightarrow> string list \<Rightarrow> sram list \<Rightarrow> error + sram list" where
  "read_techfile py_float [] sram_list = Inr sram_list"
| "read_techfile py_float (line # rest) sram_list =
     (if is_comment line then read_techfile py_float rest sram_list
      else
        (case parse_sram py_float line of
           Inl e \<Rightarrow> Inl e
         | Inr None \<Rightarrow> read_techfile py_float rest sram_list
         | Inr (Some ram) \<Rightarrow> read_techfile py_float rest (sram_list @ [ram])))"

subsection \<open>\<open>read_infile\<close>\<close>

fun parse_ops :: "string list \<Rightarrow> int \<Rightarrow> error + memory_operation list" where
  "parse_ops [] mem_words = Inr []"
| "parse_ops (tok # toks) mem_words =
     bind_err (parse_op tok mem_words) (\<lambda>x.
     bind_err (parse_ops toks mem_words) (\<lambda>xs. Inr (x # xs)))"

definition parse_memory :: "string list \<Rightarrow> error + memory" where
  "parse_memory item =
     bind_err (py_index item 0) (\<lambda>mem_name.
     bind_err (py_index item 1) (\<lambda>i1. bind_err (py_int i1) (\<lambda>mem_words.
     bind_err (py_index item 2) (\<lambda>i2. bind_err (py_int i2) (\<lambda>mem_width.
     bind_err (parse_ops (drop 3 item) mem_words) (\<lambda>mem_ops.
       memory_init mem_name mem_words mem_width mem_ops))))))"

fun read_infile :: "string list \<Rightarrow> memory list \<Rightarrow> error + memory list" where
  "read_infile [] mem_list = Inr mem_list"
| "read_infile (line # rest) mem_list =
     (let item = py_split line in
      if is_comment line then read_infile rest mem_list
      else
        (case parse_memory item of
           Inl e \<Rightarrow> Inl e
         | Inr mem \<Rightarrow> read_infile rest (mem_list @ [mem])))"

section \<open>HDL emitter\<close>

text \<open>
  \<open>write_verilog\<close> writes the module as text.  The model keeps the parts of that text that
  carry the routing: the identifiers of the module's port list in the order written, the
  constants assigned to \<open>ctrld\<close>, the calls of \<open>__write_ctrl_assignment\<close> made for each
  operation, and the physical port each \<open>Q\<close> output reads.  Bit ranges and layout, which
  the source derives from floating-point logarithms, are left out.
\<close>

subsection \<open>Library functions\<close>

text \<open>\<open>str(i)\<close>.\<close>

function str_nat :: "nat \<Rightarrow> string" where
  "str_nat n = (if n < 10 then [char_of (48 + n)]
                else str_nat (n div 10) @ [char_of (48 + n mod 10)])"
  by pat_completeness auto
termination
  by (relation "measure (\<lambda>n. n)") auto

definition str_int :: "int \<Rightarrow> string" where
  "str_int i = (if i < 0 then CHR ''-'' # str_nat (nat (- i)) else str_nat (nat i))"

text \<open>\<open>range(a, b)\<close>.\<close>

definition py_range :: "int \<Rightarrow> int \<Rightarrow> int list" where
  "py_range a b = [a..b - 1]"

text \<open>\<open>a % b\<close> and \<open>int(a / b)\<close>, which truncates towards zero.\<close>

definition py_mod :: "int \<Rightarrow> int \<Rightarrow> error + int" where
  "py_mod a b = (if b = 0 then Inl (Uncaught ZeroDivisionError) else Inr (a mod b))"

definition py_trunc_div :: "int \<Rightarrow> int \<Rightarrow> error + int" where
  "py_trunc_div a b =
     (if b = 0 then Inl (Uncaught ZeroDivisionError)
      else Inr (sgn a * sgn b * (\<bar>a\<bar> div \<bar>b\<bar>)))"

text \<open>\<open>math.log(x, 2)\<close> raises \<open>ValueError\<close> unless \<open>x\<close> is positive.\<close>

definition math_log_defined :: "int \<Rightarrow> error + unit" where
  "math_log_defined x = (if x \<le> 0 then Inl (Uncaught ValueError) else Inr ())"

text \<open>Running a loop body over a range, stopping at the first exception.\<close>

fun for_each :: "('a \<Rightarrow> error + 'b) \<Rightarrow> 'a list \<Rightarrow> error + 'b list" where
  "for_each body [] = Inr []"
| "for_each body (i # is) =
     bind_err (body i) (\<lambda>y. bind_err (for_each body is) (\<lambda>ys. Inr (y # ys)))"

subsection \<open>Module port list\<close>

definition write_interface_ports :: "string \<Rightarrow> int \<Rightarrow> string list" where
  "write_interface_ports nm i =
     [nm @ ''_CE'' @ str_int i, nm @ ''_A'' @ str_int i, nm @ ''_D'' @ str_int i,
      nm @ ''_WE'' @ str_int i, nm @ ''_WEM'' @ str_int i]"

definition read_interface_ports :: "string \<Rightarrow> int \<Rightarrow> string list" where
  "read_interface_ports nm i =
     [nm @ ''_CE'' @ str_int i, nm @ ''_A'' @ str_int i, nm @ ''_Q'' @ str_int i]"

definition module_interface :: "memory \<Rightarrow> string list" where
  "module_interface m =
     ''CLK'' #
     concat (map (write_interface_ports (name m)) (py_range 0 (write_interfaces m))) @
     concat (map (read_interface_ports (name m))
               (py_range (write_interfaces m) (write_interfaces m + read_interfaces m)))"

subsection \<open>Control selection\<close>

text \<open>The pairs \<open>(ri, c)\<close> of the lines \<open>assign ctrld[ri] = c;\<close>.\<close>

definition ctrld_assign :: "memory \<Rightarrow> (int \<times> int) list" where
  "ctrld_assign m =
     map (\<lambda>ri. (ri, if dbanks m > 1 then ri mod dbanks m else 0))
       (py_range (write_interfaces m) (write_interfaces m + read_interfaces m))"

subsection \<open>Control assignments\<close>

text \<open>
  One call of \<open>__write_ctrl_assignment\<close>.  The method looks its strings up in a table with
  one row per duplicated bank set and one column per physical port, so a set or a port
  outside the table raises \<open>IndexError\<close>; with a parallelism other than 0 it also reduces
  the interface (counted from the first read interface for a read) modulo \<open>hbanks\<close>.
\<close>

record ctrl_assignment =
  duplicated_bank_set :: int
  port :: int
  iface :: int
  is_write :: bool
  parallelism :: int

definition in_table :: "int \<Rightarrow> int \<Rightarrow> bool" where
  "in_table n i = (- n \<le> i \<and> i < n)"

definition write_ctrl_assignment ::
  "memory \<Rightarrow> sram \<Rightarrow> int \<Rightarrow> int \<Rightarrow> int \<Rightarrow> bool \<Rightarrow> int \<Rightarrow> error + ctrl_assignment" where
  "write_ctrl_assignment m bank d p i w par =
     bind_err (if par \<noteq> 0
               then py_mod (if w then i else i - write_interfaces m) (hbanks m)
               else Inr 0) (\<lambda>normalized_iface.
       if in_table (max 0 (dbanks m)) d \<and> in_table (max 0 (sram.ports bank)) p
       then Inr \<lparr> duplicated_bank_set = d, port = p, iface = i, is_write = w,
                  parallelism = par \<rparr>
       else Inl (Uncaught IndexError))"

text \<open>The port of an interface that shares a dual-port bank with others.\<close>

definition shared_port :: "int \<Rightarrow> int \<Rightarrow> int \<Rightarrow> error + int" where
  "shared_port i banks nports =
     bind_err (py_trunc_div i banks) (\<lambda>q.
     bind_err (py_mod i nports) (\<lambda>r. py_mod (q + r) nports))"

text \<open>Writes to every duplicated set, on the port that \<open>port_of\<close> gives.\<close>

definition write_all_sets ::
  "memory \<Rightarrow> sram \<Rightarrow> int \<Rightarrow> int \<Rightarrow> (int \<Rightarrow> error + int) \<Rightarrow> error + ctrl_assignment list" where
  "write_all_sets m bank n par port_of =
     bind_err
       (for_each (\<lambda>d. for_each (\<lambda>wi. bind_err (port_of wi) (\<lambda>p.
                         write_ctrl_assignment m bank d p wi True par))
                       (py_range 0 n))
          (py_range 0 (dbanks m)))
       (\<lambda>css. Inr (concat css))"

text \<open>The six cases of the loop over the operations, each an \<open>if\<close> of its own.\<close>

definition handle_2wu :: "memory \<Rightarrow> sram \<Rightarrow> memory_operation \<Rightarrow> error + ctrl_assignment list" where
  "handle_2wu m bank x =
     (if wp x = Unknown \<and> wn x = 2
      then write_all_sets m bank (wn x) 0 (\<lambda>wi. py_mod wi (sram.ports bank))
      else Inr [])"

definition handle_write_modulo :: "memory \<Rightarrow> sram \<Rightarrow> memory_operation \<Rightarrow> error + ctrl_assignment list" where
  "handle_write_modulo m bank x =
     (if rn x = 0 \<and> wp x = Modulo
      then write_all_sets m bank (wn x) (wn x)
             (\<lambda>wi. if \<not> need_parallel_rw m then shared_port wi (hbanks m) (sram.ports bank)
                    else Inr 0)
      else Inr [])"

definition handle_read_modulo :: "memory \<Rightarrow> sram \<Rightarrow> memory_operation \<Rightarrow> error + ctrl_assignment list" where
  "handle_read_modulo m bank x =
     (if wn x = 0 \<and> rp x = Modulo
      then for_each
             (\<lambda>ri. bind_err (if \<not> need_parallel_rw m
                              then shared_port ri (hbanks m) (sram.ports bank) else Inr 1)
                     (\<lambda>p. write_ctrl_assignment m bank 0 p (ri + write_interfaces m) False (rn x)))
             (py_range 0 (rn x))
      else Inr [])"

definition handle_rw_modulo :: "memory \<Rightarrow> sram \<Rightarrow> memory_operation \<Rightarrow> error + ctrl_assignment list" where
  "handle_rw_modulo m bank x =
     (if wn x > 0 \<and> rn x > 0 \<and> wp x = Modulo \<and> rp x = Modulo
      then bind_err (write_all_sets m bank (wn x) (wn x) (\<lambda>wi. Inr 0)) (\<lambda>ws.
           bind_err (for_each
                       (\<lambda>ri. write_ctrl_assignment m bank 0 1 (ri + write_interfaces m) False (rn x))
                       (py_range 0 (rn x)))
             (\<lambda>rs. Inr (ws @ rs)))
      else Inr [])"

definition handle_read_unknown :: "memory \<Rightarrow> sram \<Rightarrow> memory_operation \<Rightarrow> error + ctrl_assignment list" where
  "handle_read_unknown m bank x =
     (if rn x > 1 \<and> wn x = 0 \<and> rp x = Unknown
      then for_each
             (\<lambda>ri. bind_err (shared_port ri (dbanks m) (sram.ports bank)) (\<lambda>p.
                    bind_err (py_mod ri (dbanks m)) (\<lambda>d.
                      write_ctrl_assignment m bank d p (ri + write_interfaces m) False 0)))
             (py_range 0 (rn x))
      else Inr [])"

definition handle_rw_unknown :: "memory \<Rightarrow> sram \<Rightarrow> memory_operation \<Rightarrow> error + ctrl_assignment list" where
  "handle_rw_unknown m bank x =
     (if rn x > 1 \<and> wn x > 0 \<and> rp x = Unknown \<and> wp x = Modulo
      then bind_err (write_all_sets m bank (wn x) (wn x) (\<lambda>wi. Inr 0)) (\<lambda>ws.
           bind_err (for_each
                       (\<lambda>ri. bind_err (py_mod ri (dbanks m)) (\<lambda>d.
                          write_ctrl_assignment m bank d 1 (ri + write_interfaces m) False 0))
                       (py_range 0 (rn x)))
             (\<lambda>rs. Inr (ws @ rs)))
      else Inr [])"

definition handle_op :: "memory \<Rightarrow> sram \<Rightarrow> memory_operation \<Rightarrow> error + ctrl_assignment list" where
  "handle_op m bank x =
     bind_err (handle_2wu m bank x) (\<lambda>c1.
     bind_err (handle_write_modulo m bank x) (\<lambda>c2.
     bind_err (handle_read_modulo m bank x) (\<lambda>c3.
     bind_err (handle_rw_modulo m bank x) (\<lambda>c4.
     bind_err (handle_read_unknown m bank x) (\<lambda>c5.
     bind_err (handle_rw_unknown m bank x) (\<lambda>c6.
       Inr (c1 @ c2 @ c3 @ c4 @ c5 @ c6)))))))"

subsection \<open>Read port of each \<open>Q\<close> output\<close>

text \<open>The pairs \<open>(ri, p)\<close> of the lines \<open>assign Q_ri = bank_Q[seld[ri]][selh[ri]][selv[ri]][hh][p]\<close>.\<close>

definition q_assign :: "memory \<Rightarrow> sram \<Rightarrow> error + (int \<times> int) list" where
  "q_assign m bank =
     for_each
       (\<lambda>ri. bind_err (if sram.ports bank = 1 then Inr 0
                        else if \<not> need_parallel_rw m then py_mod ri (sram.ports bank)
                        else Inr 1) (\<lambda>p.
              bind_err (py_mod (width m - 1) (sram.width bank)) (\<lambda>top. Inr (ri, p))))
       (py_range (write_interfaces m) (write_interfaces m + read_interfaces m))"

subsection \<open>\<open>write_verilog\<close>\<close>

record verilog =
  interface :: "string list"
  ctrld :: "(int \<times> int) list"
  kernels :: "ctrl_assignment list list"
  q_ports :: "(int \<times> int) list"

definition write_verilog :: "memory \<Rightarrow> error + verilog" where
  "write_verilog m =
     bind_err (if write_interfaces m > 0 \<or> read_interfaces m > 0
               then math_log_defined (words m) else Inr ()) (\<lambda>_.
     (case bank_type m of
        None \<Rightarrow> Inl (Uncaught AttributeError)
      | Some bank \<Rightarrow>
          bind_err (math_log_defined (sram.words bank)) (\<lambda>_.
          bind_err (math_log_defined (dbanks m)) (\<lambda>_.
          bind_err (math_log_defined (hbanks m)) (\<lambda>_.
          bind_err (math_log_defined (vbanks m)) (\<lambda>_.
          bind_err (math_log_defined (words m)) (\<lambda>_.
          bind_err (for_each (handle_op m bank) (ops m)) (\<lambda>ks.
          bind_err (q_assign m bank) (\<lambda>qs.
            Inr \<lparr> interface = module_interface m, ctrld = ctrld_assign m,
                  kernels = ks, q_ports = qs \<rparr>)))))))))"

subsection \<open>The driver, for one request\<close>

definition generate :: "sram list \<Rightarrow> memory \<Rightarrow> error + verilog" where
  "generate lib m = bind_err (gen lib m) write_verilog"

section \<open>The planner's contract\<close>

text \<open>
  The per-operation contributions as the design document tabulates them, row by row.
  The rows for writes come after the rows for reads, and the fourth and seventh rows
  take the maximum with the value the read rows gave.
\<close>

definition spec_read_duplication :: "memory_operation \<Rightarrow> int" where
  "spec_read_duplication x =
     (if rp x = Unknown \<and> rn x > 1 \<and> wn x = 0 then \<lceil>(of_int (rn x) :: rat) / 2\<rceil>
      else if rp x = Unknown \<and> rn x > 1 \<and> wn x > 0 then rn x
      else 1)"

definition spec_duplication :: "memory_operation \<Rightarrow> int" where
  "spec_duplication x =
     (if wp x = Unknown \<and> wn x > 1 \<and> rn x = 0 then \<lceil>(of_int (wn x) :: rat) / 2\<rceil>
      else if wp x = Unknown \<and> wn x > 1 \<and> rn x > 0
           then max (spec_read_duplication x) (wn x)
      else spec_read_duplication x)"

definition spec_read_distribution :: "bool \<Rightarrow> memory_operation \<Rightarrow> int" where
  "spec_read_distribution parallel_rw x =
     (if rp x = Modulo \<and> rn x > 1 \<and> (wn x > 0 \<or> parallel_rw) then rn x
      else if rp x = Modulo \<and> rn x > 1 \<and> wn x = 0 \<and> \<not> parallel_rw then rn x div 2
      else 1)"

definition spec_distribution :: "bool \<Rightarrow> memory_operation \<Rightarrow> int" where
  "spec_distribution parallel_rw x =
     (if wp x = Modulo \<and> wn x > 1 \<and> (rn x > 0 \<or> parallel_rw)
      then max (spec_read_distribution parallel_rw x) (wn x)
      else if wp x = Modulo \<and> wn x > 1 \<and> rn x = 0 \<and> \<not> parallel_rw then wn x div 2
      else spec_read_distribution parallel_rw x)"

text \<open>Macro selection: which macros qualify, and the area estimate of a macro.\<close>

definition macro_qualifies :: "memory \<Rightarrow> sram \<Rightarrow> bool" where
  "macro_qualifies m ram = (\<not> (need_dual_port m \<and> sram.ports ram < 2))"




section \<open>Scenarios\<close>

text \<open>The library of the design document's scenarios: a single-port and a dual-port macro.\<close>

definition single_port_macro :: sram where
  "single_port_macro =
     \<lparr> sram.name = ''sram_1p'', words = 1024, width = 32, area = 1, ports = 1 \<rparr>"

definition dual_port_macro :: sram where
  "dual_port_macro =
     \<lparr> sram.name = ''sram_2p'', words = 1024, width = 32, area = 18 / 10, ports = 2 \<rparr>"

definition scenario_lib :: "sram list" where
  "scenario_lib = [single_port_macro, dual_port_macro]"

text \<open>A request line, with its line terminator.\<close>

definition request_line :: "string \<Rightarrow> string" where
  "request_line s = s @ [CHR 0x0A]"

section \<open>Bookkeeping for the selection loop\<close>

text \<open>
  Names for what the loop of \<open>__find_vbanks\<close> computes for one macro: whether it skips the
  macro, the area it estimates, and the memory after it retained the macro.
\<close>

definition loop_skips :: "bool \<Rightarrow> sram \<Rightarrow> bool" where
  "loop_skips ndp ram = (ndp \<and> sram.ports ram < 2)"



section \<open>The driver\<close>

text \<open>
  The script reads the request file and then, for each memory in turn, plans it and
  writes its module; the first failure ends the run.
\<close>

definition main_requests :: "sram list \<Rightarrow> string list \<Rightarrow> error + verilog list" where
  "main_requests sram_list lines =
     bind_err (read_infile lines []) (for_each (generate sram_list))"

section \<open>Requests of the scenarios\<close>

text \<open>The operations \<open>0w:4r\<close>, \<open>1w:0r\<close>, \<open>1w:1r\<close>, \<open>0w:16ru\<close> and \<open>0w:4ru\<close>.\<close>

definition op_0w4r :: memory_operation where
  "op_0w4r = \<lparr> rn = 4, rp = Modulo, wn = 0, wp = Modulo \<rparr>"

definition op_1w0r :: memory_operation where
  "op_1w0r = \<lparr> rn = 0, rp = Modulo, wn = 1, wp = Modulo \<rparr>"

definition op_1w1r :: memory_operation where
  "op_1w1r = \<lparr> rn = 1, rp = Modulo, wn = 1, wp = Modulo \<rparr>"

definition op_0w16ru :: memory_operation where
  "op_0w16ru = \<lparr> rn = 16, rp = Unknown, wn = 0, wp = Modulo \<rparr>"

definition op_0w4ru :: memory_operation where
  "op_0w4ru = \<lparr> rn = 4, rp = Unknown, wn = 0, wp = Modulo \<rparr>"

text \<open>The plan of \<open>M 2048 32 0w:4r\<close> and of \<open>M 1024 32 1w:0r\<close> against the scenario library.\<close>

definition plan_0w4r :: memory where
  "plan_0w4r =
     \<lparr> name = ''M'', words = 2048, width = 32, ops = [op_0w4r],
       read_interfaces = 4, write_interfaces = 1,
       need_dual_port = True, need_parallel_rw = False,
       duplication_factor = 1, distribution_factor = 2,
       dbanks = 1, hbanks = 2, vbanks = 1, hhbanks = 1,
       bank_type = Some dual_port_macro, area = Finite (36 / 10) \<rparr>"

definition plan_1w0r :: memory where
  "plan_1w0r =
     \<lparr> name = ''M'', words = 1024, width = 32, ops = [op_1w0r],
       read_interfaces = 1, write_interfaces = 1,
       need_dual_port = False, need_parallel_rw = False,
       duplication_factor = 1, distribution_factor = 1,
       dbanks = 1, hbanks = 1, vbanks = 1, hhbanks = 1,
       bank_type = Some single_port_macro, area = Finite 1 \<rparr>"

text \<open>
  What the design document's second scenario expects of the plan of \<open>M 2048 32 0w:4r\<close>:
  two vertical banks and a total area of 7.2.
\<close>

definition claimed_plan_0w4r :: "memory \<Rightarrow> bool" where
  "claimed_plan_0w4r m =
     (need_dual_port m \<and> duplication_factor m = 1 \<and> distribution_factor m = 2
      \<and> vbanks m = 2 \<and> hhbanks m = 1 \<and> bank_type m = Some dual_port_macro
      \<and> memory.area m = Finite (72 / 10))"

section \<open>Basic facts\<close>

lemma bind_err_Inr:
  "bind_err r f = Inr y \<longleftrightarrow> (\<exists>v. r = Inr v \<and> f v = Inr y)"
  by (cases r) (simp_all add: bind_err_def)

lemma ceil_div_ceiling: "ceil_div a b = \<lceil>(of_int a :: rat) / of_int b\<rceil>"
proof -
  have "\<lfloor>(of_int (- a) :: rat) / of_int b\<rfloor> = (- a) div b"
    by (rule floor_divide_of_int_eq)
  then show ?thesis
    by (simp add: ceil_div_def ceiling_def)
qed

lemma ceiling_half: "\<lceil>(of_int a :: rat) / 2\<rceil> = ceil_div a 2"
  using ceil_div_ceiling[of a 2] by simp



lemma fold_max_Max: "fold max (map f xs) (a::int) = Max (insert a (f ` set xs))"
proof -
  have "Max (set (a # map f xs)) = fold max (map f xs) a"
    by (rule Max.set_eq_fold)
  then show ?thesis by simp
qed

lemma Max_insert_floor:
  assumes "xs \<noteq> []" and "\<And>x. x \<in> set xs \<Longrightarrow> (a::int) \<le> f x"
  shows "Max (insert a (f ` set xs)) = Max (f ` set xs)"
proof -
  have ne: "f ` set xs \<noteq> {}" using assms(1) by simp
  have "Max (f ` set xs) \<in> f ` set xs" using ne by (intro Max_in) simp_all
  then have "a \<le> Max (f ` set xs)" using assms(2) by auto
  then show ?thesis using ne by (simp add: max_def)
qed

lemma memory_init_Inr:
  "memory_init nm w b os = Inr m0 \<longleftrightarrow> (0 < w \<and> 0 < b \<and> os \<noteq> [] \<and> m0 = default_memory nm w b os)"
  by (auto simp: memory_init_def die_werr_def)

lemma default_memory_fields:
  "ops (default_memory nm w b os) = os"
  "words (default_memory nm w b os) = w"
  "width (default_memory nm w b os) = b"
  "memory.name (default_memory nm w b os) = nm"
  "read_interfaces (default_memory nm w b os) = 1"
  "write_interfaces (default_memory nm w b os) = 1"
  "need_parallel_rw (default_memory nm w b os) = False"
  "duplication_factor (default_memory nm w b os) = 1"
  "distribution_factor (default_memory nm w b os) = 1"
  "bank_type (default_memory nm w b os) = None"
  "memory.area (default_memory nm w b os) = PosInf"
  by (simp_all add: default_memory_def)

section \<open>Facts about the planner\<close>

subsection \<open>Per-operation contributions\<close>

lemma op_duplication_spec:
  assumes "0 \<le> rn x" and "0 \<le> wn x"
  shows "op_duplication_factor x = spec_duplication x"
proof -
  have wn: "wn x \<noteq> 0 \<longleftrightarrow> wn x > 0" and rn: "rn x \<noteq> 0 \<longleftrightarrow> rn x > 0"
    using assms by auto
  show ?thesis
    unfolding op_duplication_factor_def spec_duplication_def spec_read_duplication_def
      ceiling_half Let_def
    using wn rn by (auto simp: max_def)
qed

lemma op_distribution_spec:
  "0 \<le> rn x \<Longrightarrow> 0 \<le> wn x \<Longrightarrow> op_distribution_factor p x = spec_distribution p x"
  by (auto simp: op_distribution_factor_def spec_distribution_def spec_read_distribution_def
      drop_bit_eq_div Let_def)

lemma op_duplication_ge1: "1 \<le> op_duplication_factor x"
  by (auto simp: op_duplication_factor_def ceil_div_def Let_def)

lemma op_distribution_ge1: "1 \<le> op_distribution_factor p x"
  by (auto simp: op_distribution_factor_def drop_bit_eq_div Let_def)

subsection \<open>The three loops of \<open>__find_hbanks\<close>\<close>

lemma hbanks_interfaces_fields:
  "ops (hbanks_interfaces xs m) = ops m"
  "duplication_factor (hbanks_interfaces xs m) = duplication_factor m"
  "distribution_factor (hbanks_interfaces xs m) = distribution_factor m"
  "words (hbanks_interfaces xs m) = words m"
  "width (hbanks_interfaces xs m) = width m"
  "memory.name (hbanks_interfaces xs m) = memory.name m"
  "bank_type (hbanks_interfaces xs m) = bank_type m"
  "memory.area (hbanks_interfaces xs m) = memory.area m"
  by (induction xs arbitrary: m; simp add: Let_def)+

lemma hbanks_interfaces_read:
  "read_interfaces (hbanks_interfaces xs m) = fold max (map rn xs) (read_interfaces m)"
  by (induction xs arbitrary: m) (simp_all add: Let_def max.commute)

lemma hbanks_interfaces_write:
  "write_interfaces (hbanks_interfaces xs m) = fold max (map wn xs) (write_interfaces m)"
  by (induction xs arbitrary: m) (simp_all add: Let_def max.commute)

lemma hbanks_interfaces_parallel_rw:
  "need_parallel_rw (hbanks_interfaces xs m) =
     (need_parallel_rw m \<or> (\<exists>x\<in>set xs. rn x > 0 \<and> wn x > 0))"
  by (induction xs arbitrary: m) (auto simp: Let_def)

lemma hbanks_duplication_fields:
  "ops (hbanks_duplication xs m) = ops m"
  "read_interfaces (hbanks_duplication xs m) = read_interfaces m"
  "write_interfaces (hbanks_duplication xs m) = write_interfaces m"
  "need_parallel_rw (hbanks_duplication xs m) = need_parallel_rw m"
  "need_dual_port (hbanks_duplication xs m) = need_dual_port m"
  "distribution_factor (hbanks_duplication xs m) = distribution_factor m"
  "words (hbanks_duplication xs m) = words m"
  "width (hbanks_duplication xs m) = width m"
  "memory.name (hbanks_duplication xs m) = memory.name m"
  "bank_type (hbanks_duplication xs m) = bank_type m"
  "memory.area (hbanks_duplication xs m) = memory.area m"
  by (induction xs arbitrary: m; simp)+

lemma hbanks_duplication_factor:
  "duplication_factor (hbanks_duplication xs m) =
     fold max (map op_duplication_factor xs) (duplication_factor m)"
  by (induction xs arbitrary: m) (simp_all add: max.commute)

lemma hbanks_distribution_fields:
  "ops (hbanks_distribution xs m) = ops m"
  "read_interfaces (hbanks_distribution xs m) = read_interfaces m"
  "write_interfaces (hbanks_distribution xs m) = write_interfaces m"
  "need_parallel_rw (hbanks_distribution xs m) = need_parallel_rw m"
  "need_dual_port (hbanks_distribution xs m) = need_dual_port m"
  "duplication_factor (hbanks_distribution xs m) = duplication_factor m"
  "words (hbanks_distribution xs m) = words m"
  "width (hbanks_distribution xs m) = width m"
  "memory.name (hbanks_distribution xs m) = memory.name m"
  "bank_type (hbanks_distribution xs m) = bank_type m"
  "memory.area (hbanks_distribution xs m) = memory.area m"
  by (induction xs arbitrary: m; simp)+

lemma hbanks_distribution_factor:
  "distribution_factor (hbanks_distribution xs m) =
     fold max (map (op_distribution_factor (need_parallel_rw m)) xs) (distribution_factor m)"
  by (induction xs arbitrary: m) (simp_all add: max.commute)

lemmas hbanks_loops_fields =
  hbanks_interfaces_fields hbanks_duplication_fields hbanks_distribution_fields

lemma find_hbanks_fields:
  "ops (find_hbanks m) = ops m"
  "words (find_hbanks m) = words m"
  "width (find_hbanks m) = width m"
  "memory.name (find_hbanks m) = memory.name m"
  "bank_type (find_hbanks m) = bank_type m"
  "memory.area (find_hbanks m) = memory.area m"
  "dbanks (find_hbanks m) = duplication_factor (find_hbanks m)"
  "hbanks (find_hbanks m) = distribution_factor (find_hbanks m)"
  by (simp_all add: find_hbanks_def Let_def hbanks_loops_fields)

lemma find_hbanks_interfaces:
  "read_interfaces (find_hbanks m) = Max (insert (read_interfaces m) (rn ` set (ops m)))"
  "write_interfaces (find_hbanks m) = Max (insert (write_interfaces m) (wn ` set (ops m)))"
  "need_parallel_rw (find_hbanks m) =
     (need_parallel_rw m \<or> (\<exists>x\<in>set (ops m). rn x > 0 \<and> wn x > 0))"
  by (simp_all add: find_hbanks_def Let_def hbanks_loops_fields hbanks_interfaces_read
      hbanks_interfaces_write hbanks_interfaces_parallel_rw fold_max_Max)

lemma find_hbanks_factors:
  "duplication_factor (find_hbanks m) =
     Max (insert (duplication_factor m) (op_duplication_factor ` set (ops m)))"
  "distribution_factor (find_hbanks m) =
     Max (insert (distribution_factor m)
            (op_distribution_factor (need_parallel_rw (find_hbanks m)) ` set (ops m)))"
  by (simp_all add: find_hbanks_def Let_def hbanks_loops_fields hbanks_duplication_factor
      hbanks_distribution_factor fold_max_Max)

lemma find_hbanks_default_pos:
  "1 \<le> distribution_factor (find_hbanks (default_memory nm w b os))"
  by (simp add: find_hbanks_factors default_memory_fields)

subsection \<open>The loop of \<open>__find_vbanks\<close>\<close>

lemma vbanks_body_fields:
  assumes "vbanks_body ram wph d h m = Inr m'"
  shows "ops m' = ops m" "words m' = words m" "width m' = width m"
    "memory.name m' = memory.name m"
    "read_interfaces m' = read_interfaces m" "write_interfaces m' = write_interfaces m"
    "need_parallel_rw m' = need_parallel_rw m" "need_dual_port m' = need_dual_port m"
    "duplication_factor m' = duplication_factor m"
    "distribution_factor m' = distribution_factor m"
    "dbanks m' = dbanks m" "hbanks m' = hbanks m"
  using assms by (auto simp: vbanks_body_def Let_def split: if_splits)

lemma vbanks_loop_fields:
  assumes "vbanks_loop lib wph d h m = Inr m'"
  shows "ops m' = ops m \<and> words m' = words m \<and> width m' = width m
       \<and> memory.name m' = memory.name m
       \<and> read_interfaces m' = read_interfaces m \<and> write_interfaces m' = write_interfaces m
       \<and> need_parallel_rw m' = need_parallel_rw m \<and> need_dual_port m' = need_dual_port m
       \<and> duplication_factor m' = duplication_factor m
       \<and> distribution_factor m' = distribution_factor m
       \<and> dbanks m' = dbanks m \<and> hbanks m' = hbanks m"
  using assms
proof (induction lib arbitrary: m)
  case Nil
  then show ?case by simp
next
  case (Cons ram lib)
  from Cons.prems obtain m1 where
    b: "vbanks_body ram wph d h m = Inr m1" and l: "vbanks_loop lib wph d h m1 = Inr m'"
    by (auto simp: bind_err_Inr)
  show ?case
    using Cons.IH[OF l] vbanks_body_fields[OF b] by simp
qed




lemma vbanks_body_need_dual_port:
  "vbanks_body ram wph d h m = Inr m1 \<Longrightarrow> need_dual_port m1 = need_dual_port m"
  by (rule vbanks_body_fields)


lemma vbanks_loop_all_skipped:
  "\<forall>r\<in>set lib. loop_skips (need_dual_port m) r \<Longrightarrow> vbanks_loop lib wph d h m = Inr m"
  by (induction lib) (simp_all add: vbanks_body_def loop_skips_def bind_err_def)

lemma vbanks_body_nonzero:
  assumes "vbanks_body ram wph d h m = Inr m1" and "\<not> loop_skips (need_dual_port m) ram"
  shows "sram.width ram \<noteq> 0 \<and> sram.words ram \<noteq> 0"
  using assms by (auto simp: vbanks_body_def loop_skips_def split: if_splits)

lemma vbanks_loop_nonzero:
  assumes "vbanks_loop lib wph d h m = Inr m'"
  shows "\<forall>r\<in>set lib. \<not> loop_skips (need_dual_port m) r \<longrightarrow>
           sram.width r \<noteq> 0 \<and> sram.words r \<noteq> 0"
  using assms
proof (induction lib arbitrary: m)
  case Nil
  show ?case by simp
next
  case (Cons ram lib)
  from Cons.prems obtain m1 where
    b: "vbanks_body ram wph d h m = Inr m1" and l: "vbanks_loop lib wph d h m1 = Inr m'"
    by (auto simp: bind_err_Inr)
  have "need_dual_port m1 = need_dual_port m" by (rule vbanks_body_need_dual_port[OF b])
  with Cons.IH[OF l] vbanks_body_nonzero[OF b] show ?case by simp
qed

lemma find_vbanks_fields:
  assumes "find_vbanks lib mh = Inr m"
  shows "ops m = ops mh \<and> words m = words mh \<and> width m = width mh
       \<and> memory.name m = memory.name mh
       \<and> read_interfaces m = read_interfaces mh \<and> write_interfaces m = write_interfaces mh
       \<and> need_parallel_rw m = need_parallel_rw mh \<and> need_dual_port m = need_dual_port mh
       \<and> duplication_factor m = duplication_factor mh
       \<and> distribution_factor m = distribution_factor mh
       \<and> dbanks m = dbanks mh \<and> hbanks m = hbanks mh"
  using assms by (auto simp: find_vbanks_def split: if_splits dest: vbanks_loop_fields)

lemma gen_Inr:
  assumes "gen lib m0 = Inr m"
  shows "find_vbanks lib (find_hbanks m0) = Inr m" and "bank_type m \<noteq> None"
  using assms by (auto simp: gen_def bind_err_Inr split: option.splits)



subsection \<open>Plans of the scenarios\<close>

lemma read_0w4r:
  "read_infile [request_line ''M 2048 32 0w:4r''] [] = Inr [default_memory ''M'' 2048 32 [op_0w4r]]"
  by code_simp

lemma gen_plan_0w4r: "gen scenario_lib (default_memory ''M'' 2048 32 [op_0w4r]) = Inr plan_0w4r"
  by code_simp

lemma gen_plan_1w0r: "gen scenario_lib (default_memory ''M'' 1024 32 [op_1w0r]) = Inr plan_1w0r"
  by code_simp

section \<open>Claims about the planner\<close>

text \<open>
  Claim C1, as the design document states it: against the library of the single-port macro
  (1024 words, 32 bits, area 1.0) and the dual-port macro (1024 words, 32 bits, area 1.8),
  in that order, planning \<open>M 2048 32 0w:4r\<close> gives \<open>need_dual_port\<close>, \<open>D = 1\<close>,
  \<open>H = 2\<close>, \<open>V = 2\<close>, \<open>HH = 1\<close>, the dual-port macro and a total area of 7.2.
  The plan the code computes is not that one: each of the two horizontal banks holds
  \<open>2048 / 2 = 1024\<close> words, which one macro covers.
\<close>

theorem plan_0w4r_not_as_claimed:
  "read_infile [request_line ''M 2048 32 0w:4r''] [] = Inr [default_memory ''M'' 2048 32 [op_0w4r]]
   \<and> gen scenario_lib (default_memory ''M'' 2048 32 [op_0w4r]) = Inr plan_0w4r
   \<and> \<not> claimed_plan_0w4r plan_0w4r"
  using read_0w4r gen_plan_0w4r by (simp add: claimed_plan_0w4r_def plan_0w4r_def)

text \<open>
  Claim C1, amended: planning \<open>M 2048 32 0w:4r\<close> against that library gives
  \<open>need_dual_port\<close>, \<open>D = 1\<close>, \<open>H = 2\<close>, \<open>V = 1\<close>, \<open>HH = 1\<close>, selects the dual-port
  macro and reports the total area \<open>1 * 2 * 1 * 1 * 1.8 = 3.6\<close>.
\<close>

theorem plan_0w4r_scenario:
  "read_infile [request_line ''M 2048 32 0w:4r''] [] = Inr [default_memory ''M'' 2048 32 [op_0w4r]]
   \<and> gen scenario_lib (default_memory ''M'' 2048 32 [op_0w4r]) = Inr plan_0w4r
   \<and> need_dual_port plan_0w4r \<and> duplication_factor plan_0w4r = 1
   \<and> distribution_factor plan_0w4r = 2 \<and> dbanks plan_0w4r = 1 \<and> hbanks plan_0w4r = 2
   \<and> vbanks plan_0w4r = 1 \<and> hhbanks plan_0w4r = 1
   \<and> bank_type plan_0w4r = Some dual_port_macro
   \<and> memory.area plan_0w4r = Finite (36 / 10)
   \<and> memory.area plan_0w4r = Finite (1 * 2 * 1 * 1 * sram.area dual_port_macro)"
  using read_0w4r gen_plan_0w4r by (simp add: plan_0w4r_def dual_port_macro_def)

text \<open>
  Claim C2: for every memory request, after planning, \<open>duplication_factor\<close> is the
  maximum over its operations of the per-operation duplication contribution, and
  \<open>distribution_factor\<close> is the maximum over its operations of the per-operation
  distribution contribution, the contributions being those of the design document's table
  (\<open>spec_duplication\<close>, \<open>spec_distribution\<close>).  The request is one that \<open>memory.__init__\<close>
  accepts, and its operation counts are not negative, as \<open>parse_op\<close> ensures.
\<close>

theorem replication_factors_max_over_ops:
  assumes "memory_init nm w b os = Inr m0" and "gen lib m0 = Inr m"
    and "\<forall>x\<in>set os. 0 \<le> rn x \<and> 0 \<le> wn x"
  shows "duplication_factor m = Max (spec_duplication ` set os)
       \<and> distribution_factor m = Max (spec_distribution (need_parallel_rw m) ` set os)"
proof -
  from assms(1) have ne: "os \<noteq> []" and m0: "m0 = default_memory nm w b os"
    by (simp_all add: memory_init_Inr)
  let ?mh = "find_hbanks m0"
  from gen_Inr(1)[OF assms(2)] have fv: "find_vbanks lib ?mh = Inr m" .
  note same = find_vbanks_fields[OF fv]
  have p: "need_parallel_rw m = need_parallel_rw ?mh" using same by simp
  have "duplication_factor m = Max (insert 1 (op_duplication_factor ` set os))"
    using same by (simp add: find_hbanks_factors m0 default_memory_fields)
  also have "\<dots> = Max (op_duplication_factor ` set os)"
    by (rule Max_insert_floor[OF ne]) (rule op_duplication_ge1)
  also have "op_duplication_factor ` set os = spec_duplication ` set os"
    using assms(3) by (intro image_cong refl op_duplication_spec) auto
  finally have d: "duplication_factor m = Max (spec_duplication ` set os)" .
  have "distribution_factor m
          = Max (insert 1 (op_distribution_factor (need_parallel_rw m) ` set os))"
    using same by (simp add: find_hbanks_factors m0 default_memory_fields)
  also have "\<dots> = Max (op_distribution_factor (need_parallel_rw m) ` set os)"
    by (rule Max_insert_floor[OF ne]) (rule op_distribution_ge1)
  also have "op_distribution_factor (need_parallel_rw m) ` set os
               = spec_distribution (need_parallel_rw m) ` set os"
    using assms(3) by (intro image_cong refl op_distribution_spec) auto
  finally have h: "distribution_factor m
                     = Max (spec_distribution (need_parallel_rw m) ` set os)" .
  from d h show ?thesis by simp
qed

theorem replication_factors_max_over_ops_witness:
  "memory_init ''M'' 2048 32 [op_0w4r] = Inr (default_memory ''M'' 2048 32 [op_0w4r])
   \<and> gen scenario_lib (default_memory ''M'' 2048 32 [op_0w4r]) = Inr plan_0w4r
   \<and> 0 \<le> rn op_0w4r \<and> 0 \<le> wn op_0w4r
   \<and> duplication_factor plan_0w4r = Max (spec_duplication ` set [op_0w4r])
   \<and> distribution_factor plan_0w4r
       = Max (spec_distribution (need_parallel_rw plan_0w4r) ` set [op_0w4r])"
proof -
  have i: "memory_init ''M'' 2048 32 [op_0w4r] = Inr (default_memory ''M'' 2048 32 [op_0w4r])"
    by (simp add: memory_init_def)
  have n: "\<forall>x\<in>set [op_0w4r]. 0 \<le> rn x \<and> 0 \<le> wn x"
    by (simp add: op_0w4r_def)
  show ?thesis
    using replication_factors_max_over_ops[OF i gen_plan_0w4r n] i gen_plan_0w4r n by simp
qed

text \<open>
  Claim C3, as the design document states it: \<open>read_interfaces\<close> is the maximum \<open>rn\<close> over
  the operations, so that a request whose only operation is \<open>1w:0r\<close> has 0 read
  interfaces.  The code plans that request with one read interface, because the counters
  start at the class attribute 1.
\<close>

theorem read_interfaces_1w0r_not_zero:
  "read_infile [request_line ''M 1024 32 1w:0r''] [] = Inr [default_memory ''M'' 1024 32 [op_1w0r]]
   \<and> gen scenario_lib (default_memory ''M'' 1024 32 [op_1w0r]) = Inr plan_1w0r
   \<and> Max (rn ` set (ops plan_1w0r)) = 0
   \<and> read_interfaces plan_1w0r = 1"
proof -
  have "read_infile [request_line ''M 1024 32 1w:0r''] [] = Inr [default_memory ''M'' 1024 32 [op_1w0r]]"
    by code_simp
  then show ?thesis using gen_plan_1w0r by (simp add: plan_1w0r_def op_1w0r_def)
qed

text \<open>
  Claim C3, amended: for every planned memory request, \<open>read_interfaces\<close> is the larger
  of 1 and the maximum \<open>rn\<close> over its operations, and \<open>write_interfaces\<close> is the larger of
  1 and the maximum \<open>wn\<close>; in particular a request whose operations all have \<open>rn = 0\<close>
  has one read interface.
\<close>

theorem interfaces_max_with_default:
  assumes "memory_init nm w b os = Inr m0" and "gen lib m0 = Inr m"
  shows "read_interfaces m = max 1 (Max (rn ` set os))
       \<and> write_interfaces m = max 1 (Max (wn ` set os))
       \<and> ((\<forall>x\<in>set os. rn x = 0) \<longrightarrow> read_interfaces m = 1)"
proof -
  from assms(1) have ne: "os \<noteq> []" and m0: "m0 = default_memory nm w b os"
    by (simp_all add: memory_init_Inr)
  from gen_Inr(1)[OF assms(2)] have fv: "find_vbanks lib (find_hbanks m0) = Inr m" .
  note same = find_vbanks_fields[OF fv]
  have r: "read_interfaces m = max 1 (Max (rn ` set os))"
    using same ne by (simp add: find_hbanks_interfaces m0 default_memory_fields)
  have w: "write_interfaces m = max 1 (Max (wn ` set os))"
    using same ne by (simp add: find_hbanks_interfaces m0 default_memory_fields)
  have z: "read_interfaces m = 1" if "\<forall>x\<in>set os. rn x = 0"
  proof -
    have "rn ` set os = {0}" using that ne by (cases os) auto
    then show ?thesis using r by simp
  qed
  from r w z show ?thesis by blast
qed

theorem interfaces_max_with_default_witness:
  "memory_init ''M'' 1024 32 [op_1w0r] = Inr (default_memory ''M'' 1024 32 [op_1w0r])
   \<and> gen scenario_lib (default_memory ''M'' 1024 32 [op_1w0r]) = Inr plan_1w0r
   \<and> read_interfaces plan_1w0r = max 1 (Max (rn ` set [op_1w0r]))
   \<and> write_interfaces plan_1w0r = max 1 (Max (wn ` set [op_1w0r]))
   \<and> rn op_1w0r = 0 \<and> read_interfaces plan_1w0r = 1"
proof -
  have i: "memory_init ''M'' 1024 32 [op_1w0r] = Inr (default_memory ''M'' 1024 32 [op_1w0r])"
    by (simp add: memory_init_def)
  have z: "rn op_1w0r = 0" by (simp add: op_1w0r_def)
  show ?thesis
    using interfaces_max_with_default[OF i gen_plan_1w0r] i gen_plan_1w0r z by simp
qed



text \<open>
  The hypothesis on the macros' width and word count costs nothing: it holds of every
  library against which planning succeeds.
\<close>

lemma planned_macros_nonzero:
  assumes "gen lib m0 = Inr m"
  shows "\<forall>r\<in>set lib. macro_qualifies (find_hbanks m0) r \<longrightarrow>
           sram.width r \<noteq> 0 \<and> sram.words r \<noteq> 0"
proof -
  from gen_Inr(1)[OF assms] have "find_vbanks lib (find_hbanks m0) = Inr m" .
  then have "vbanks_loop lib (ceil_div (words (find_hbanks m0)) (hbanks (find_hbanks m0)))
               (dbanks (find_hbanks m0)) (hbanks (find_hbanks m0)) (find_hbanks m0) = Inr m"
    by (simp add: find_vbanks_def split: if_splits)
  from vbanks_loop_nonzero[OF this] show ?thesis
    by (simp add: macro_qualifies_def loop_skips_def)
qed

text \<open>
  When no macro qualifies the loop retains nothing, and \<open>gen\<close> fails on
  \<open>self.bank_type.name\<close>.
\<close>

lemma gen_no_qualifying_macro:
  assumes "memory_init nm w b os = Inr m0"
    and "\<forall>r\<in>set lib. \<not> macro_qualifies (find_hbanks m0) r"
  shows "gen lib m0 = Inl (Uncaught AttributeError)"
proof -
  from assms(1) have m0: "m0 = default_memory nm w b os" by (simp add: memory_init_Inr)
  have H: "hbanks (find_hbanks m0) \<noteq> 0"
    using find_hbanks_default_pos[of nm w b os] by (simp add: find_hbanks_fields m0)
  have "\<forall>r\<in>set lib. loop_skips (need_dual_port (find_hbanks m0)) r"
    using assms(2) by (simp add: macro_qualifies_def loop_skips_def)
  then have "find_vbanks lib (find_hbanks m0) = Inr (find_hbanks m0)"
    using H by (simp add: find_vbanks_def vbanks_loop_all_skipped)
  moreover have "bank_type (find_hbanks m0) = None"
    by (simp add: find_hbanks_fields m0 default_memory_fields)
  ultimately show ?thesis by (simp add: gen_def bind_err_def)
qed

text \<open>
  Claim C5: when no library macro qualifies, the program is to fail with a
  NoSuitableMacro error, reported once, and exit with status 2.  For the request
  \<open>M 4096 64 1w:1r\<close> against a library of the single-port macro alone, the code instead
  raises \<open>AttributeError\<close>, which nothing catches: the interpreter leaves with status 1.
\<close>

theorem no_suitable_macro_attribute_error:
  "main_requests [single_port_macro] [request_line ''M 4096 64 1w:1r'']
     = Inl (Uncaught AttributeError)
   \<and> gen [single_port_macro] (default_memory ''M'' 4096 64 [op_1w1r])
     = Inl (Uncaught AttributeError)
   \<and> exit_status (Uncaught AttributeError) = 1"
  by code_simp

section \<open>Claims about the parsers\<close>

lemmas string_defs = py_split_on_def py_index_def re_split_def re_M_def re_I_def
  is_lower_def is_digit_def is_space_def is_upper_def to_lower_def py_int_def py_strip_def
  re_match_ci_def is_power2z_def read_pattern_of_def write_pattern_of_def die_werr_def

lemma parse_16ru_0w: "\<exists>msg. parse_op ''16ru:0w'' w = Inl (Die msg)"
  by (simp add: parse_op_def bind_err_def string_defs)

lemma parse_2wu_1r: "\<exists>msg. parse_op ''2wu:1r'' w = Inl (Die msg)"
  by (simp add: parse_op_def bind_err_def string_defs)

lemma parse_0w_16ru: "16 \<le> w \<Longrightarrow> parse_op ''0w:16ru'' w = Inr op_0w16ru"
  by (simp add: parse_op_def bind_err_def string_defs op_0w16ru_def)

lemma run_0w16ru: "\<exists>vs. main_requests scenario_lib [request_line ''M 1024 32 0w:16ru''] = Inr vs"
proof -
  have "map_sum id length (main_requests scenario_lib [request_line ''M 1024 32 0w:16ru'']) = Inr 1"
    by code_simp
  then show ?thesis by (cases "main_requests scenario_lib [request_line ''M 1024 32 0w:16ru'']") auto
qed

text \<open>
  Claim C6: the operation parser is to accept a token whatever the case of its pattern
  letters.  \<open>1w:1r\<close> parses; \<open>1W:1R\<close> raises \<open>ValueError\<close>, because \<open>re.split\<close> takes the
  flags as \<open>maxsplit\<close>, splits on lower-case letters only and hands \<open>1W\<close> to \<open>int()\<close>.
\<close>

theorem parse_op_uppercase_value_error:
  "parse_op ''1w:1r'' 1024 = Inr op_1w1r
   \<and> parse_op ''1W:1R'' 1024 = Inl (Uncaught ValueError)"
  by code_simp

text \<open>
  Claim C7, as the design document states it: a request whose single operation token is
  \<open>16ru:0w\<close> is accepted, plans and emits.  The parser reads the field after the colon as
  the read access, and \<open>0w\<close> is no read pattern: the token is rejected and the run ends.
\<close>

theorem parse_op_16ru_0w_rejected:
  "parse_op ''16ru:0w'' 1024 = Inl (Die ''Parallel read access 16ru:0w not recognized'')
   \<and> main_requests scenario_lib [request_line ''M 1024 32 16ru:0w'']
       = Inl (Die ''Parallel read access 16ru:0w not recognized'')"
  by code_simp

text \<open>
  Claim C7, amended: the token \<open>16ru:0w\<close> is rejected by the operation parser for every
  word count, and so is \<open>2wu:1r\<close>; the sixteen reads of unknown pattern written in the
  parser's order, \<open>0w:16ru\<close>, are accepted for a memory of at least 16 words, and the
  request \<open>M 1024 32 0w:16ru\<close> plans and emits against the scenario library.
\<close>

theorem parse_op_boundary_tokens:
  "(\<exists>msg. parse_op ''16ru:0w'' w = Inl (Die msg))
   \<and> (\<exists>msg. parse_op ''2wu:1r'' w = Inl (Die msg))
   \<and> (16 \<le> w \<longrightarrow> parse_op ''0w:16ru'' w = Inr op_0w16ru)
   \<and> (\<exists>vs. main_requests scenario_lib [request_line ''M 1024 32 0w:16ru''] = Inr vs)"
  using parse_16ru_0w[of w] parse_2wu_1r[of w] parse_0w_16ru[of w] run_0w16ru by blast

theorem parse_op_boundary_tokens_witness:
  "(\<exists>msg. parse_op ''16ru:0w'' 1024 = Inl (Die msg))
   \<and> (\<exists>msg. parse_op ''2wu:1r'' 1024 = Inl (Die msg))
   \<and> (16::int) \<le> 1024 \<and> parse_op ''0w:16ru'' 1024 = Inr op_0w16ru
   \<and> (\<exists>vs. main_requests scenario_lib [request_line ''M 1024 32 0w:16ru''] = Inr vs)"
  using parse_op_boundary_tokens[of 1024] by simp

text \<open>A line that begins with \<open>#\<close> is passed over by both readers, wherever it stands.\<close>

lemma read_techfile_skips_comment:
  assumes "is_comment line"
  shows "read_techfile py_float (pre @ line # post) sram_list
           = read_techfile py_float (pre @ post) sram_list"
proof (induction pre arbitrary: sram_list)
  case Nil
  show ?case using assms by simp
next
  case (Cons l pre)
  show ?case
    by (simp add: Cons.IH split: sum.splits option.splits)
qed

lemma read_infile_skips_comment:
  assumes "is_comment line"
  shows "read_infile (pre @ line # post) mem_list = read_infile (pre @ post) mem_list"
proof (induction pre arbitrary: mem_list)
  case Nil
  show ?case using assms by simp
next
  case (Cons l pre)
  show ?case
    by (simp add: Cons.IH Let_def split: sum.splits)
qed

text \<open>
  Claim C8: both readers are to ignore every blank line and every line beginning with
  \<open>#\<close>.  The comment lines are ignored, as the two lemmas above show.  A blank line is
  not: it splits into no field, and the first field access raises \<open>IndexError\<close>, in
  \<open>parse_sram\<close> for the library file and in \<open>read_infile\<close> for the request file.
\<close>

theorem blank_line_index_error:
  "read_techfile py_float [[CHR 0x0A]] sram_list = Inl (Uncaught IndexError)
   \<and> read_infile [[CHR 0x0A]] mem_list = Inl (Uncaught IndexError)"
  by (simp add: parse_sram_def parse_memory_def py_split_def is_space_def py_index_def bind_err_def)

section \<open>Claims about the emitter\<close>



lemma length_py_range: "length (py_range a b) = nat (b - a)"
  by (simp add: py_range_def)

lemma nth_py_range: "i < nat (b - a) \<Longrightarrow> py_range a b ! i = a + int i"
  by (simp add: py_range_def)








text \<open>
  Claim C10: with \<open>D > 1\<close>, the duplicated set that the control kernel steers the read of
  local index \<open>ri\<close> to, \<open>ri mod D\<close>, is to equal the selector \<open>ctrld[W + ri]\<close> that the
  readback uses.  The emitter assigns \<open>ctrld[W + ri] = (W + ri) mod D\<close>, counting from the
  interface number rather than from the local index.  For \<open>M 1024 32 0w:4ru\<close> (\<open>W = 1\<close>,
  \<open>D = 2\<close>) read interface 1 is steered to set 0 and read back from set 1, and so on for
  every read interface.
\<close>

theorem read_unknown_set_mismatch:
  "map_sum id kernels (generate scenario_lib (default_memory ''M'' 1024 32 [op_0w4ru]))
     = Inr [[\<lparr> duplicated_bank_set = 0, port = 0, iface = 1, is_write = False, parallelism = 0 \<rparr>,
             \<lparr> duplicated_bank_set = 1, port = 1, iface = 2, is_write = False, parallelism = 0 \<rparr>,
             \<lparr> duplicated_bank_set = 0, port = 1, iface = 3, is_write = False, parallelism = 0 \<rparr>,
             \<lparr> duplicated_bank_set = 1, port = 0, iface = 4, is_write = False, parallelism = 0 \<rparr>]]
   \<and> map_sum id ctrld (generate scenario_lib (default_memory ''M'' 1024 32 [op_0w4ru]))
     = Inr [(1, 1), (2, 0), (3, 1), (4, 0)]"
  by code_simp

text \<open>
  The same in general.  The kernel for \<open><N>ru:0w\<close> steers the read of local index \<open>i\<close> to
  the set \<open>i mod D\<close> and names it interface \<open>W + i\<close>; the selector of that interface is
  \<open>(W + i) mod D\<close>; and the two are equal exactly when \<open>D\<close> divides \<open>W\<close>.
\<close>

lemma for_each_Inr_nth:
  assumes "for_each body xs = Inr ys" and "i < length xs"
  shows "length ys = length xs \<and> body (xs ! i) = Inr (ys ! i)"
  using assms
proof (induction xs arbitrary: ys i)
  case Nil
  then show ?case by simp
next
  case (Cons x xs)
  from Cons.prems(1) obtain y ys' where
    y: "body x = Inr y" and r: "for_each body xs = Inr ys'" and ys: "ys = y # ys'"
    by (auto simp: bind_err_Inr)
  show ?case
  proof (cases i)
    case 0
    with y ys Cons.IH[OF r] r show ?thesis
      by (cases xs) (auto simp: bind_err_Inr)
  next
    case (Suc j)
    with Cons.prems(2) have "j < length xs" by simp
    from Cons.IH[OF r this] Suc ys show ?thesis by simp
  qed
qed

lemma handle_read_unknown_set:
  assumes "handle_read_unknown m bank x = Inr cs"
    and "1 < rn x" and "wn x = 0" and "rp x = Unknown"
    and "i < nat (rn x)"
  shows "duplicated_bank_set (cs ! i) = int i mod dbanks m
       \<and> iface (cs ! i) = write_interfaces m + int i"
proof -
  let ?body = "\<lambda>ri. bind_err (shared_port ri (dbanks m) (sram.ports bank)) (\<lambda>p.
                    bind_err (py_mod ri (dbanks m)) (\<lambda>d.
                      write_ctrl_assignment m bank d p (ri + write_interfaces m) False 0))"
  from assms(1-4) have fe: "for_each ?body (py_range 0 (rn x)) = Inr cs"
    by (simp add: handle_read_unknown_def)
  have len: "i < length (py_range 0 (rn x))" using assms(5) by (simp add: length_py_range)
  have nth: "py_range 0 (rn x) ! i = int i" using assms(5) by (simp add: nth_py_range)
  from for_each_Inr_nth[OF fe len] nth have "?body (int i) = Inr (cs ! i)" by simp
  then obtain p where
    "write_ctrl_assignment m bank (int i mod dbanks m) p (int i + write_interfaces m) False 0
       = Inr (cs ! i)"
    by (auto simp: bind_err_Inr py_mod_def split: if_splits)
  then have "cs ! i = \<lparr> duplicated_bank_set = int i mod dbanks m, port = p,
                       iface = int i + write_interfaces m, is_write = False,
                       parallelism = 0 \<rparr>"
    by (auto simp: write_ctrl_assignment_def bind_err_def split: if_splits)
  then show ?thesis by simp
qed

lemma ctrld_assign_lookup:
  assumes "1 < dbanks m" and "0 \<le> ri" and "ri < read_interfaces m"
  shows "(write_interfaces m + ri, (write_interfaces m + ri) mod dbanks m) \<in> set (ctrld_assign m)"
  using assms by (auto simp: ctrld_assign_def py_range_def image_iff)

lemma set_agrees_iff_divides:
  fixes W D ri :: int
  shows "(W + ri) mod D = ri mod D \<longleftrightarrow> D dvd W"
proof
  assume "(W + ri) mod D = ri mod D"
  then have "(W + ri - ri) mod D = 0"
    by (metis mod_diff_cong cancel_comm_monoid_add_class.diff_cancel mod_0)
  then show "D dvd W" by (simp add: dvd_eq_mod_eq_0)
next
  assume "D dvd W"
  then show "(W + ri) mod D = ri mod D" by (metis dvd_eq_mod_eq_0 mod_add_left_eq add_0)
qed

end
